theory Spec2Isabelle
  imports Main "HOL-Library.Word"
begin

section \<open>The IOAVService bridge shim\<close>

text \<open>
  \<^verbatim>\<open>IOAVServiceBridge.c\<close> re-exports four private IOKit entry points under the names
  \<^verbatim>\<open>mkf_IOAVServiceCreate\<close>, \<^verbatim>\<open>mkf_IOAVServiceCreateWithService\<close>,
  \<^verbatim>\<open>mkf_IOAVServiceWriteI2C\<close> and \<^verbatim>\<open>mkf_IOAVServiceReadI2C\<close>. Each body is a single
  \<^verbatim>\<open>return\<close> of the private call, with one pointer cast on the service handle.
\<close>

subsection \<open>C types\<close>

text \<open>
  The scalar types come from the system headers: \<^verbatim>\<open>uint32_t\<close> is an unsigned 32-bit
  integer, \<^verbatim>\<open>IOReturn\<close> is \<^verbatim>\<open>kern_return_t\<close>, a 32-bit \<^verbatim>\<open>int\<close>, and
  \<^verbatim>\<open>io_service_t\<close> is a Mach port name, a 32-bit \<^verbatim>\<open>unsigned int\<close>. Pointers are
  64 bits wide on the platforms that ship the framework.
\<close>

type_synonym uint32_t = "32 word"
type_synonym IOReturn = "32 word"
type_synonym io_service_t = "32 word"
type_synonym address = "64 word"

text \<open>
  Three pointer types occur. They are kept apart as three datatypes over the same
  address, so that every conversion between them is a visible function:
  \<^verbatim>\<open>void *\<close>, \<^verbatim>\<open>CFTypeRef\<close> (which is \<^verbatim>\<open>const void *\<close>) and
  \<^verbatim>\<open>CFAllocatorRef\<close>.
\<close>

datatype void_ptr = VoidPtr (ptr_val: address)
datatype CFTypeRef = ConstVoidPtr (ref_val: address)
datatype CFAllocatorRef = AllocatorPtr (allocator_val: address)

text \<open>\<^verbatim>\<open>typedef CFTypeRef IOAVServiceRef;\<close>\<close>

type_synonym IOAVServiceRef = CFTypeRef

text \<open>
  The two casts of the source: \<^verbatim>\<open>(void* )r\<close> on the result of a constructor and
  \<^verbatim>\<open>(IOAVServiceRef)service\<close> on the handle argument of an I2C call. A C cast between
  object pointer types of the same width keeps the address.
\<close>

definition cast_void_ptr :: "IOAVServiceRef \<Rightarrow> void_ptr" where
  "cast_void_ptr r = VoidPtr (ref_val r)"

definition cast_IOAVServiceRef :: "void_ptr \<Rightarrow> IOAVServiceRef" where
  "cast_IOAVServiceRef p = ConstVoidPtr (ptr_val p)"

definition NULL :: void_ptr where
  "NULL = VoidPtr 0"

subsection \<open>The private framework\<close>

text \<open>
  The four \<^verbatim>\<open>extern\<close> declarations name functions of a closed framework. Their
  behaviour is a parameter of the model: a record of four functions over a state
  \<open>'w\<close> of the framework's choosing (kernel objects, the I2C bus, the memory behind the
  handle and the data buffer). Each call takes the state and returns its result with
  the state it leaves. The shim has no loop and no branch, so it returns whenever the
  framework call does; a framework call that traps or blocks forever is not modelled.
\<close>

record 'w framework =
  IOAVServiceCreate :: "CFAllocatorRef \<Rightarrow> 'w \<Rightarrow> IOAVServiceRef \<times> 'w"
  IOAVServiceCreateWithService ::
    "CFAllocatorRef \<Rightarrow> io_service_t \<Rightarrow> 'w \<Rightarrow> IOAVServiceRef \<times> 'w"
  IOAVServiceWriteI2C ::
    "IOAVServiceRef \<Rightarrow> uint32_t \<Rightarrow> uint32_t \<Rightarrow> void_ptr \<Rightarrow> uint32_t \<Rightarrow> 'w \<Rightarrow> IOReturn \<times> 'w"
  IOAVServiceReadI2C ::
    "IOAVServiceRef \<Rightarrow> uint32_t \<Rightarrow> uint32_t \<Rightarrow> void_ptr \<Rightarrow> uint32_t \<Rightarrow> 'w \<Rightarrow> IOReturn \<times> 'w"

subsection \<open>The four exported functions\<close>

text \<open>
  \<^verbatim>\<open>void* mkf_IOAVServiceCreate(CFAllocatorRef allocator) {
    return (void* )IOAVServiceCreate(allocator);
}\<close>
\<close>

definition mkf_IOAVServiceCreate :: "'w framework \<Rightarrow> CFAllocatorRef \<Rightarrow> 'w \<Rightarrow> void_ptr \<times> 'w" where
  "mkf_IOAVServiceCreate fw allocator w =
     (let (r, w') = IOAVServiceCreate fw allocator w in (cast_void_ptr r, w'))"

text \<open>
  \<^verbatim>\<open>void* mkf_IOAVServiceCreateWithService(CFAllocatorRef allocator, io_service_t service) {
    return (void* )IOAVServiceCreateWithService(allocator, service);
}\<close>
\<close>

definition mkf_IOAVServiceCreateWithService ::
  "'w framework \<Rightarrow> CFAllocatorRef \<Rightarrow> io_service_t \<Rightarrow> 'w \<Rightarrow> void_ptr \<times> 'w" where
  "mkf_IOAVServiceCreateWithService fw allocator service w =
     (let (r, w') = IOAVServiceCreateWithService fw allocator service w
      in (cast_void_ptr r, w'))"

text \<open>
  \<^verbatim>\<open>IOReturn mkf_IOAVServiceWriteI2C(void *service, uint32_t chipAddress,
                                  uint32_t dataAddress, void *data, uint32_t dataLength) {
    return IOAVServiceWriteI2C((IOAVServiceRef)service, chipAddress, dataAddress, data, dataLength);
}\<close>
\<close>

definition mkf_IOAVServiceWriteI2C ::
  "'w framework \<Rightarrow> void_ptr \<Rightarrow> uint32_t \<Rightarrow> uint32_t \<Rightarrow> void_ptr \<Rightarrow> uint32_t \<Rightarrow> 'w \<Rightarrow> IOReturn \<times> 'w" where
  "mkf_IOAVServiceWriteI2C fw service chipAddress dataAddress data dataLength w =
     IOAVServiceWriteI2C fw (cast_IOAVServiceRef service) chipAddress dataAddress data dataLength w"

text \<open>
  \<^verbatim>\<open>IOReturn mkf_IOAVServiceReadI2C(void *service, uint32_t chipAddress,
                                 uint32_t dataAddress, void *data, uint32_t dataLength) {
    return IOAVServiceReadI2C((IOAVServiceRef)service, chipAddress, dataAddress, data, dataLength);
}\<close>
\<close>

definition mkf_IOAVServiceReadI2C ::
  "'w framework \<Rightarrow> void_ptr \<Rightarrow> uint32_t \<Rightarrow> uint32_t \<Rightarrow> void_ptr \<Rightarrow> uint32_t \<Rightarrow> 'w \<Rightarrow> IOReturn \<times> 'w" where
  "mkf_IOAVServiceReadI2C fw service chipAddress dataAddress data dataLength w =
     IOAVServiceReadI2C fw (cast_IOAVServiceRef service) chipAddress dataAddress data dataLength w"

subsection \<open>Observing what the framework is called with\<close>

text \<open>
  To state which calls reach the framework, and with which arguments, any framework can
  be run under a recorder: the state gains a log, and each of the four entry points
  appends its own call, with the arguments it received, before doing what the
  recorded framework does.
\<close>

datatype framework_call =
    Call_IOAVServiceCreate CFAllocatorRef
  | Call_IOAVServiceCreateWithService CFAllocatorRef io_service_t
  | Call_IOAVServiceWriteI2C IOAVServiceRef uint32_t uint32_t void_ptr uint32_t
  | Call_IOAVServiceReadI2C IOAVServiceRef uint32_t uint32_t void_ptr uint32_t

definition logged ::
  "framework_call \<Rightarrow> ('w \<Rightarrow> 'r \<times> 'w) \<Rightarrow> framework_call list \<times> 'w \<Rightarrow> 'r \<times> framework_call list \<times> 'w" where
  "logged c f s = (let (r, w') = f (snd s) in (r, fst s @ [c], w'))"

definition recording :: "'w framework \<Rightarrow> (framework_call list \<times> 'w) framework" where
  "recording fw =
     \<lparr> IOAVServiceCreate = (\<lambda>a. logged (Call_IOAVServiceCreate a) (IOAVServiceCreate fw a)),
       IOAVServiceCreateWithService =
         (\<lambda>a s. logged (Call_IOAVServiceCreateWithService a s)
                   (IOAVServiceCreateWithService fw a s)),
       IOAVServiceWriteI2C =
         (\<lambda>r c d b l. logged (Call_IOAVServiceWriteI2C r c d b l)
                         (IOAVServiceWriteI2C fw r c d b l)),
       IOAVServiceReadI2C =
         (\<lambda>r c d b l. logged (Call_IOAVServiceReadI2C r c d b l)
                         (IOAVServiceReadI2C fw r c d b l)) \<rparr>"

subsection \<open>A stand-in framework for concrete checks\<close>

text \<open>
  One concrete framework, for evaluating the statements below at explicit inputs. Its
  state is the address of the next handle it will hand out, and 0 when no display is
  attached. A constructor fails with a null reference when no display is attached (or,
  for the second constructor, when the service port is \<^verbatim>\<open>MACH_PORT_NULL\<close>) and otherwise
  hands out the next address. A write fails with status \<^verbatim>\<open>0xE00002C2\<close> on a null handle
  or without a display; a read always reports \<^verbatim>\<open>0xE00002C2\<close>.
\<close>

definition mock_framework :: "address framework" where
  "mock_framework =
     \<lparr> IOAVServiceCreate =
         (\<lambda>a w. if w = 0 then (ConstVoidPtr 0, w) else (ConstVoidPtr w, w + 16)),
       IOAVServiceCreateWithService =
         (\<lambda>a s w. if w = 0 \<or> s = 0 then (ConstVoidPtr 0, w) else (ConstVoidPtr w, w + 16)),
       IOAVServiceWriteI2C =
         (\<lambda>r c d b l w. (if ref_val r = 0 \<or> w = 0 then 0xE00002C2 else 0, w)),
       IOAVServiceReadI2C =
         (\<lambda>r c d b l w. (0xE00002C2, w)) \<rparr>"

section \<open>Forwarding\<close>

lemma logged_result: "fst (logged c f (log, w)) = fst (f w)"
  by (simp add: logged_def split_beta)

lemma logged_log: "fst (snd (logged c f (log, w))) = log @ [c]"
  by (simp add: logged_def split_beta)

lemma logged_state: "snd (snd (logged c f (log, w))) = snd (f w)"
  by (simp add: logged_def split_beta)

text \<open>
  C1. For every handle, chip address, data address, buffer and length,
  \<^verbatim>\<open>mkf_IOAVServiceWriteI2C\<close> is the private \<^verbatim>\<open>IOAVServiceWriteI2C\<close> at the same
  arguments: it returns the framework's status and leaves the framework's state, the
  handle it passes has the address it was given, and under the recorder the framework
  sees exactly one call, a write carrying the five arguments as they came in.
\<close>

theorem mkf_IOAVServiceWriteI2C_forwards:
  "mkf_IOAVServiceWriteI2C fw service chipAddress dataAddress data dataLength w
     = IOAVServiceWriteI2C fw (cast_IOAVServiceRef service) chipAddress dataAddress data dataLength w
   \<and> ref_val (cast_IOAVServiceRef service) = ptr_val service
   \<and> fst (snd (mkf_IOAVServiceWriteI2C (recording fw) service chipAddress dataAddress data dataLength (log, w)))
     = log @ [Call_IOAVServiceWriteI2C (ConstVoidPtr (ptr_val service)) chipAddress dataAddress data dataLength]"
  by (simp add: mkf_IOAVServiceWriteI2C_def recording_def cast_IOAVServiceRef_def logged_log)

text \<open>
  C2. The same for \<^verbatim>\<open>mkf_IOAVServiceReadI2C\<close> and the private
  \<^verbatim>\<open>IOAVServiceReadI2C\<close>: same result and state, same handle address, one recorded read
  with the five arguments as they came in. In particular, when the framework's read
  reports status \<^verbatim>\<open>0xE00002C2\<close>, so does \<^verbatim>\<open>mkf_IOAVServiceReadI2C\<close>.
\<close>

theorem mkf_IOAVServiceReadI2C_forwards:
  "mkf_IOAVServiceReadI2C fw service chipAddress dataAddress data dataLength w
     = IOAVServiceReadI2C fw (cast_IOAVServiceRef service) chipAddress dataAddress data dataLength w
   \<and> ref_val (cast_IOAVServiceRef service) = ptr_val service
   \<and> fst (snd (mkf_IOAVServiceReadI2C (recording fw) service chipAddress dataAddress data dataLength (log, w)))
     = log @ [Call_IOAVServiceReadI2C (ConstVoidPtr (ptr_val service)) chipAddress dataAddress data dataLength]
   \<and> (fst (IOAVServiceReadI2C fw (cast_IOAVServiceRef service) chipAddress dataAddress data dataLength w)
         = 0xE00002C2
       \<longrightarrow> fst (mkf_IOAVServiceReadI2C fw service chipAddress dataAddress data dataLength w)
         = 0xE00002C2)"
  by (simp add: mkf_IOAVServiceReadI2C_def recording_def cast_IOAVServiceRef_def logged_log)

text \<open>
  The scenario of the specification on the stand-in framework: the read of 11 bytes at
  chip address \<^verbatim>\<open>0x37\<close>, data address \<^verbatim>\<open>0x51\<close> reports \<^verbatim>\<open>0xE00002C2\<close>, and that
  is what the caller of the shim gets.
\<close>

theorem mkf_IOAVServiceReadI2C_forwards_witness:
  "fst (IOAVServiceReadI2C mock_framework (cast_IOAVServiceRef (VoidPtr 0x1000)) 0x37 0x51
          (VoidPtr 0x2000) 11 0x1010) = 0xE00002C2
   \<and> fst (mkf_IOAVServiceReadI2C mock_framework (VoidPtr 0x1000) 0x37 0x51 (VoidPtr 0x2000) 11 0x1010)
       = 0xE00002C2
   \<and> snd (mkf_IOAVServiceReadI2C mock_framework (VoidPtr 0x1000) 0x37 0x51 (VoidPtr 0x2000) 11 0x1010)
       = 0x1010"
  using mkf_IOAVServiceReadI2C_forwards
          [of mock_framework "VoidPtr 0x1000" "0x37" "0x51" "VoidPtr 0x2000" 11 "0x1010" "[]"]
  by (simp add: mock_framework_def)

text \<open>
  C3. For every allocator, the null allocator included, \<^verbatim>\<open>mkf_IOAVServiceCreate\<close>
  returns the reference that the private \<^verbatim>\<open>IOAVServiceCreate\<close> returns for that
  allocator, as a \<^verbatim>\<open>void *\<close> of the same address, so it is null exactly when the
  framework's reference is null. The framework is called once, with the allocator as
  given: nothing is retried and the allocator is not inspected.
\<close>

theorem mkf_IOAVServiceCreate_returns_framework_result:
  "mkf_IOAVServiceCreate fw allocator w
     = (cast_void_ptr (fst (IOAVServiceCreate fw allocator w)), snd (IOAVServiceCreate fw allocator w))
   \<and> ptr_val (fst (mkf_IOAVServiceCreate fw allocator w))
     = ref_val (fst (IOAVServiceCreate fw allocator w))
   \<and> (fst (mkf_IOAVServiceCreate fw allocator w) = NULL)
     = (fst (IOAVServiceCreate fw allocator w) = ConstVoidPtr 0)
   \<and> fst (mkf_IOAVServiceCreate fw (AllocatorPtr 0) w)
     = cast_void_ptr (fst (IOAVServiceCreate fw (AllocatorPtr 0) w))
   \<and> fst (snd (mkf_IOAVServiceCreate (recording fw) allocator (log, w)))
     = log @ [Call_IOAVServiceCreate allocator]"
  by (cases "fst (IOAVServiceCreate fw allocator w)")
     (simp add: mkf_IOAVServiceCreate_def recording_def cast_void_ptr_def NULL_def
                logged_def split_beta)

text \<open>
  C4. For every allocator and service object, \<^verbatim>\<open>mkf_IOAVServiceCreateWithService\<close>
  returns the reference that the private \<^verbatim>\<open>IOAVServiceCreateWithService\<close> returns for
  that pair, as a \<^verbatim>\<open>void *\<close> of the same address, and leaves the framework's state;
  the framework is called once, with both arguments as given.
\<close>

theorem mkf_IOAVServiceCreateWithService_forwards:
  "mkf_IOAVServiceCreateWithService fw allocator service w
     = (cast_void_ptr (fst (IOAVServiceCreateWithService fw allocator service w)),
        snd (IOAVServiceCreateWithService fw allocator service w))
   \<and> ptr_val (fst (mkf_IOAVServiceCreateWithService fw allocator service w))
     = ref_val (fst (IOAVServiceCreateWithService fw allocator service w))
   \<and> fst (snd (mkf_IOAVServiceCreateWithService (recording fw) allocator service (log, w)))
     = log @ [Call_IOAVServiceCreateWithService allocator service]"
  by (simp add: mkf_IOAVServiceCreateWithService_def recording_def cast_void_ptr_def
                logged_def split_beta)

section \<open>Failures\<close>




section \<open>Boundary inputs\<close>

text \<open>
  C6. A zero length and a null buffer are forwarded like any other value. For every
  buffer and every length, \<^verbatim>\<open>mkf_IOAVServiceWriteI2C\<close> and
  \<^verbatim>\<open>mkf_IOAVServiceReadI2C\<close> give the result and state of the private call at the
  same arguments: that one rule covers all inputs, with no case set apart. Its
  instances at length 0 (any buffer) and at a null buffer (any length) are the private
  call at those same arguments, and the recorded framework sees that one call with the
  0 and the null pointer in place.
\<close>

theorem zero_length_and_null_buffer_forwarded:
  "(\<forall>buffer n. mkf_IOAVServiceWriteI2C fw service chipAddress dataAddress buffer n w
       = IOAVServiceWriteI2C fw (cast_IOAVServiceRef service) chipAddress dataAddress buffer n w)
   \<and> (\<forall>buffer n. mkf_IOAVServiceReadI2C fw service chipAddress dataAddress buffer n w
       = IOAVServiceReadI2C fw (cast_IOAVServiceRef service) chipAddress dataAddress buffer n w)
   \<and> (\<forall>buffer n. fst (snd (mkf_IOAVServiceWriteI2C (recording fw) service chipAddress dataAddress buffer n (log, w)))
       = log @ [Call_IOAVServiceWriteI2C (cast_IOAVServiceRef service) chipAddress dataAddress buffer n])
   \<and> (\<forall>buffer n. fst (snd (mkf_IOAVServiceReadI2C (recording fw) service chipAddress dataAddress buffer n (log, w)))
       = log @ [Call_IOAVServiceReadI2C (cast_IOAVServiceRef service) chipAddress dataAddress buffer n])
   \<and> mkf_IOAVServiceWriteI2C fw service chipAddress dataAddress data 0 w
     = IOAVServiceWriteI2C fw (cast_IOAVServiceRef service) chipAddress dataAddress data 0 w
   \<and> mkf_IOAVServiceWriteI2C fw service chipAddress dataAddress NULL dataLength w
     = IOAVServiceWriteI2C fw (cast_IOAVServiceRef service) chipAddress dataAddress (VoidPtr 0) dataLength w
   \<and> mkf_IOAVServiceReadI2C fw service chipAddress dataAddress data 0 w
     = IOAVServiceReadI2C fw (cast_IOAVServiceRef service) chipAddress dataAddress data 0 w
   \<and> mkf_IOAVServiceReadI2C fw service chipAddress dataAddress NULL dataLength w
     = IOAVServiceReadI2C fw (cast_IOAVServiceRef service) chipAddress dataAddress (VoidPtr 0) dataLength w
   \<and> fst (snd (mkf_IOAVServiceWriteI2C (recording fw) service chipAddress dataAddress NULL 0 (log, w)))
     = log @ [Call_IOAVServiceWriteI2C (cast_IOAVServiceRef service) chipAddress dataAddress (VoidPtr 0) 0]
   \<and> fst (snd (mkf_IOAVServiceReadI2C (recording fw) service chipAddress dataAddress NULL 0 (log, w)))
     = log @ [Call_IOAVServiceReadI2C (cast_IOAVServiceRef service) chipAddress dataAddress (VoidPtr 0) 0]"
  by (simp add: mkf_IOAVServiceWriteI2C_def mkf_IOAVServiceReadI2C_def recording_def NULL_def
                logged_log)

section \<open>No state in the shim\<close>

text \<open>
  C7. The shim keeps nothing between calls. The value each of the four functions
  returns is determined by the value the framework call returns: two frameworks, over
  any two kinds of state, whose calls return the same value make the shim return the
  same value. The state after a call is the framework's state after its call. Two calls
  of \<^verbatim>\<open>mkf_IOAVServiceCreate\<close> with the same allocator are two framework calls, the
  second on the state the first left, and return the framework's two references.
\<close>

theorem shim_is_stateless:
  "(fst (IOAVServiceCreate fw allocator w) = fst (IOAVServiceCreate fw' allocator w')
      \<longrightarrow> fst (mkf_IOAVServiceCreate fw allocator w) = fst (mkf_IOAVServiceCreate fw' allocator w'))
   \<and> (fst (IOAVServiceCreateWithService fw allocator port w)
        = fst (IOAVServiceCreateWithService fw' allocator port w')
      \<longrightarrow> fst (mkf_IOAVServiceCreateWithService fw allocator port w)
        = fst (mkf_IOAVServiceCreateWithService fw' allocator port w'))
   \<and> (fst (IOAVServiceWriteI2C fw (cast_IOAVServiceRef service) chipAddress dataAddress data dataLength w)
        = fst (IOAVServiceWriteI2C fw' (cast_IOAVServiceRef service) chipAddress dataAddress data dataLength w')
      \<longrightarrow> fst (mkf_IOAVServiceWriteI2C fw service chipAddress dataAddress data dataLength w)
        = fst (mkf_IOAVServiceWriteI2C fw' service chipAddress dataAddress data dataLength w'))
   \<and> (fst (IOAVServiceReadI2C fw (cast_IOAVServiceRef service) chipAddress dataAddress data dataLength w)
        = fst (IOAVServiceReadI2C fw' (cast_IOAVServiceRef service) chipAddress dataAddress data dataLength w')
      \<longrightarrow> fst (mkf_IOAVServiceReadI2C fw service chipAddress dataAddress data dataLength w)
        = fst (mkf_IOAVServiceReadI2C fw' service chipAddress dataAddress data dataLength w'))
   \<and> snd (mkf_IOAVServiceCreate fw allocator w) = snd (IOAVServiceCreate fw allocator w)
   \<and> snd (mkf_IOAVServiceCreateWithService fw allocator port w)
       = snd (IOAVServiceCreateWithService fw allocator port w)
   \<and> snd (mkf_IOAVServiceWriteI2C fw service chipAddress dataAddress data dataLength w)
       = snd (IOAVServiceWriteI2C fw (cast_IOAVServiceRef service) chipAddress dataAddress data dataLength w)
   \<and> snd (mkf_IOAVServiceReadI2C fw service chipAddress dataAddress data dataLength w)
       = snd (IOAVServiceReadI2C fw (cast_IOAVServiceRef service) chipAddress dataAddress data dataLength w)
   \<and> mkf_IOAVServiceCreate fw allocator (snd (mkf_IOAVServiceCreate fw allocator w))
       = (cast_void_ptr (fst (IOAVServiceCreate fw allocator (snd (IOAVServiceCreate fw allocator w)))),
          snd (IOAVServiceCreate fw allocator (snd (IOAVServiceCreate fw allocator w))))
   \<and> fst (snd (mkf_IOAVServiceCreate (recording fw) allocator
                 (snd (mkf_IOAVServiceCreate (recording fw) allocator (log, w)))))
       = log @ [Call_IOAVServiceCreate allocator, Call_IOAVServiceCreate allocator]"
  by (simp add: mkf_IOAVServiceCreate_def mkf_IOAVServiceCreateWithService_def
                mkf_IOAVServiceWriteI2C_def mkf_IOAVServiceReadI2C_def
                recording_def logged_def split_beta)

text \<open>
  The stand-in framework and the same framework under the recorder have different
  states and return the same values, so the shim returns the same values over both.
  Two creations from state \<^verbatim>\<open>0x1000\<close> return the two handles the framework hands out,
  \<^verbatim>\<open>0x1000\<close> and then \<^verbatim>\<open>0x1010\<close>: the second is not a copy of the first.
\<close>

theorem shim_is_stateless_witness:
  "fst (IOAVServiceCreate mock_framework (AllocatorPtr 0) 0x1000)
     = fst (IOAVServiceCreate (recording mock_framework) (AllocatorPtr 0) ([], 0x1000))
   \<and> fst (IOAVServiceCreateWithService mock_framework (AllocatorPtr 0) 0x2b03 0x1000)
     = fst (IOAVServiceCreateWithService (recording mock_framework) (AllocatorPtr 0) 0x2b03 ([], 0x1000))
   \<and> fst (IOAVServiceWriteI2C mock_framework (cast_IOAVServiceRef (VoidPtr 0x1000)) 0x37 0x51
            (VoidPtr 0x2000) 6 0x1000)
     = fst (IOAVServiceWriteI2C (recording mock_framework) (cast_IOAVServiceRef (VoidPtr 0x1000)) 0x37 0x51
            (VoidPtr 0x2000) 6 ([], 0x1000))
   \<and> fst (IOAVServiceReadI2C mock_framework (cast_IOAVServiceRef (VoidPtr 0x1000)) 0x37 0x51
            (VoidPtr 0x2000) 6 0x1000)
     = fst (IOAVServiceReadI2C (recording mock_framework) (cast_IOAVServiceRef (VoidPtr 0x1000)) 0x37 0x51
            (VoidPtr 0x2000) 6 ([], 0x1000))
   \<and> fst (mkf_IOAVServiceCreate mock_framework (AllocatorPtr 0) 0x1000)
     = fst (mkf_IOAVServiceCreate (recording mock_framework) (AllocatorPtr 0) ([], 0x1000))
   \<and> fst (mkf_IOAVServiceCreateWithService mock_framework (AllocatorPtr 0) 0x2b03 0x1000)
     = fst (mkf_IOAVServiceCreateWithService (recording mock_framework) (AllocatorPtr 0) 0x2b03 ([], 0x1000))
   \<and> fst (mkf_IOAVServiceWriteI2C mock_framework (VoidPtr 0x1000) 0x37 0x51 (VoidPtr 0x2000) 6 0x1000)
     = fst (mkf_IOAVServiceWriteI2C (recording mock_framework) (VoidPtr 0x1000) 0x37 0x51
            (VoidPtr 0x2000) 6 ([], 0x1000))
   \<and> fst (mkf_IOAVServiceReadI2C mock_framework (VoidPtr 0x1000) 0x37 0x51 (VoidPtr 0x2000) 6 0x1000)
     = fst (mkf_IOAVServiceReadI2C (recording mock_framework) (VoidPtr 0x1000) 0x37 0x51
            (VoidPtr 0x2000) 6 ([], 0x1000))
   \<and> snd (mkf_IOAVServiceCreate mock_framework (AllocatorPtr 0) 0x1000) = 0x1010
   \<and> mkf_IOAVServiceCreate mock_framework (AllocatorPtr 0)
        (snd (mkf_IOAVServiceCreate mock_framework (AllocatorPtr 0) 0x1000))
     = (VoidPtr 0x1010, 0x1020)"
proof -
  have c_same: "fst (IOAVServiceCreate mock_framework (AllocatorPtr 0) 0x1000)
      = fst (IOAVServiceCreate (recording mock_framework) (AllocatorPtr 0) ([], 0x1000))"
    by (simp add: recording_def logged_result)
  have cws_same: "fst (IOAVServiceCreateWithService mock_framework (AllocatorPtr 0) 0x2b03 0x1000)
      = fst (IOAVServiceCreateWithService (recording mock_framework) (AllocatorPtr 0) 0x2b03 ([], 0x1000))"
    by (simp add: recording_def logged_result)
  have w_same: "fst (IOAVServiceWriteI2C mock_framework (cast_IOAVServiceRef (VoidPtr 0x1000)) 0x37 0x51
            (VoidPtr 0x2000) 6 0x1000)
      = fst (IOAVServiceWriteI2C (recording mock_framework) (cast_IOAVServiceRef (VoidPtr 0x1000)) 0x37 0x51
            (VoidPtr 0x2000) 6 ([], 0x1000))"
    by (simp add: recording_def logged_result)
  have r_same: "fst (IOAVServiceReadI2C mock_framework (cast_IOAVServiceRef (VoidPtr 0x1000)) 0x37 0x51
            (VoidPtr 0x2000) 6 0x1000)
      = fst (IOAVServiceReadI2C (recording mock_framework) (cast_IOAVServiceRef (VoidPtr 0x1000)) 0x37 0x51
            (VoidPtr 0x2000) 6 ([], 0x1000))"
    by (simp add: recording_def logged_result)
  have first_state: "snd (IOAVServiceCreate mock_framework (AllocatorPtr 0) 0x1000) = 0x1010"
    by (simp add: mock_framework_def)
  have second_call: "IOAVServiceCreate mock_framework (AllocatorPtr 0) 0x1010 = (ConstVoidPtr 0x1010, 0x1020)"
    by (simp add: mock_framework_def)
  note inst = shim_is_stateless
            [of mock_framework "AllocatorPtr 0" "0x1000" "recording mock_framework" "([], 0x1000)"
                "0x2b03" "VoidPtr 0x1000" "0x37" "0x51" "VoidPtr 0x2000" 6 "[]"]
  from inst c_same
  have c_shim: "fst (mkf_IOAVServiceCreate mock_framework (AllocatorPtr 0) 0x1000)
      = fst (mkf_IOAVServiceCreate (recording mock_framework) (AllocatorPtr 0) ([], 0x1000))"
    by blast
  from inst cws_same
  have cws_shim: "fst (mkf_IOAVServiceCreateWithService mock_framework (AllocatorPtr 0) 0x2b03 0x1000)
      = fst (mkf_IOAVServiceCreateWithService (recording mock_framework) (AllocatorPtr 0) 0x2b03 ([], 0x1000))"
    by blast
  from inst w_same
  have w_shim: "fst (mkf_IOAVServiceWriteI2C mock_framework (VoidPtr 0x1000) 0x37 0x51 (VoidPtr 0x2000) 6 0x1000)
      = fst (mkf_IOAVServiceWriteI2C (recording mock_framework) (VoidPtr 0x1000) 0x37 0x51
            (VoidPtr 0x2000) 6 ([], 0x1000))"
    by blast
  from inst r_same
  have r_shim: "fst (mkf_IOAVServiceReadI2C mock_framework (VoidPtr 0x1000) 0x37 0x51 (VoidPtr 0x2000) 6 0x1000)
      = fst (mkf_IOAVServiceReadI2C (recording mock_framework) (VoidPtr 0x1000) 0x37 0x51
            (VoidPtr 0x2000) 6 ([], 0x1000))"
    by blast
  from inst
  have shim_state: "snd (mkf_IOAVServiceCreate mock_framework (AllocatorPtr 0) 0x1000)
      = snd (IOAVServiceCreate mock_framework (AllocatorPtr 0) 0x1000)"
    by blast
  from inst
  have twice: "mkf_IOAVServiceCreate mock_framework (AllocatorPtr 0)
        (snd (mkf_IOAVServiceCreate mock_framework (AllocatorPtr 0) 0x1000))
      = (cast_void_ptr (fst (IOAVServiceCreate mock_framework (AllocatorPtr 0)
                               (snd (IOAVServiceCreate mock_framework (AllocatorPtr 0) 0x1000)))),
         snd (IOAVServiceCreate mock_framework (AllocatorPtr 0)
                (snd (IOAVServiceCreate mock_framework (AllocatorPtr 0) 0x1000))))"
    by blast
  have twice_value: "mkf_IOAVServiceCreate mock_framework (AllocatorPtr 0)
        (snd (mkf_IOAVServiceCreate mock_framework (AllocatorPtr 0) 0x1000))
      = (VoidPtr 0x1010, 0x1020)"
    unfolding twice first_state second_call by (simp add: cast_void_ptr_def)
  have once_state: "snd (mkf_IOAVServiceCreate mock_framework (AllocatorPtr 0) 0x1000) = 0x1010"
    unfolding shim_state by (rule first_state)
  from c_same cws_same w_same r_same c_shim cws_shim w_shim r_shim once_state twice_value
  show ?thesis
    by (intro conjI)
qed

section \<open>The handle\<close>

lemma ref_of_void_ptr_of_ref: "cast_IOAVServiceRef (cast_void_ptr r) = r"
  by (cases r) (simp add: cast_IOAVServiceRef_def cast_void_ptr_def)

text \<open>
  C8. The shim only relays the handle. Towards the caller, the pointer a constructor
  returns has the address of the framework's reference; towards the framework, the
  reference an I2C call passes has the address of the caller's pointer, whatever that
  address is, and that is the handle the recorded framework sees. The shim reads and
  changes nothing behind the handle: what each of the four functions returns, value and
  state, is what the framework's own call returns at the relayed pointer, for every
  framework and every state. So the value returned depends on the state, where the
  handle's contents live, through the framework call alone, and the state afterwards is
  exactly the state that call left.
\<close>

theorem shim_only_relays_handle:
  "ptr_val (cast_void_ptr r) = ref_val r
   \<and> ref_val (cast_IOAVServiceRef service) = ptr_val service
   \<and> ptr_val (fst (mkf_IOAVServiceCreate fw allocator w))
       = ref_val (fst (IOAVServiceCreate fw allocator w))
   \<and> ptr_val (fst (mkf_IOAVServiceCreateWithService fw allocator port w))
       = ref_val (fst (IOAVServiceCreateWithService fw allocator port w))
   \<and> fst (snd (mkf_IOAVServiceWriteI2C (recording fw) (VoidPtr a) chipAddress dataAddress data dataLength (log, w)))
       = log @ [Call_IOAVServiceWriteI2C (ConstVoidPtr a) chipAddress dataAddress data dataLength]
   \<and> fst (snd (mkf_IOAVServiceReadI2C (recording fw) (VoidPtr a) chipAddress dataAddress data dataLength (log, w)))
       = log @ [Call_IOAVServiceReadI2C (ConstVoidPtr a) chipAddress dataAddress data dataLength]
   \<and> mkf_IOAVServiceCreate fw allocator w
       = (VoidPtr (ref_val (fst (IOAVServiceCreate fw allocator w))),
          snd (IOAVServiceCreate fw allocator w))
   \<and> mkf_IOAVServiceCreateWithService fw allocator port w
       = (VoidPtr (ref_val (fst (IOAVServiceCreateWithService fw allocator port w))),
          snd (IOAVServiceCreateWithService fw allocator port w))
   \<and> mkf_IOAVServiceWriteI2C fw service chipAddress dataAddress data dataLength w
       = IOAVServiceWriteI2C fw (ConstVoidPtr (ptr_val service)) chipAddress dataAddress data dataLength w
   \<and> mkf_IOAVServiceReadI2C fw service chipAddress dataAddress data dataLength w
       = IOAVServiceReadI2C fw (ConstVoidPtr (ptr_val service)) chipAddress dataAddress data dataLength w
   \<and> fst (mkf_IOAVServiceWriteI2C fw service chipAddress dataAddress data dataLength w)
       = fst (IOAVServiceWriteI2C fw (ConstVoidPtr (ptr_val service)) chipAddress dataAddress data dataLength w)
   \<and> fst (mkf_IOAVServiceReadI2C fw service chipAddress dataAddress data dataLength w)
       = fst (IOAVServiceReadI2C fw (ConstVoidPtr (ptr_val service)) chipAddress dataAddress data dataLength w)
   \<and> snd (mkf_IOAVServiceCreate fw allocator w) = snd (IOAVServiceCreate fw allocator w)
   \<and> snd (mkf_IOAVServiceCreateWithService fw allocator port w)
       = snd (IOAVServiceCreateWithService fw allocator port w)
   \<and> snd (mkf_IOAVServiceWriteI2C fw service chipAddress dataAddress data dataLength w)
       = snd (IOAVServiceWriteI2C fw (ConstVoidPtr (ptr_val service)) chipAddress dataAddress data dataLength w)
   \<and> snd (mkf_IOAVServiceReadI2C fw service chipAddress dataAddress data dataLength w)
       = snd (IOAVServiceReadI2C fw (ConstVoidPtr (ptr_val service)) chipAddress dataAddress data dataLength w)"
  by (simp add: mkf_IOAVServiceCreate_def mkf_IOAVServiceCreateWithService_def
                mkf_IOAVServiceWriteI2C_def mkf_IOAVServiceReadI2C_def
                cast_void_ptr_def cast_IOAVServiceRef_def recording_def logged_log split_beta)

text \<open>
  C9. Casting a reference to \<^verbatim>\<open>void *\<close> and back gives the reference again. So a
  handle obtained from \<^verbatim>\<open>mkf_IOAVServiceCreate\<close> or
  \<^verbatim>\<open>mkf_IOAVServiceCreateWithService\<close> and passed to \<^verbatim>\<open>mkf_IOAVServiceWriteI2C\<close> or
  \<^verbatim>\<open>mkf_IOAVServiceReadI2C\<close>, in any later state, reaches the framework as the very
  reference its constructor returned.
\<close>

theorem handle_cast_round_trip:
  "cast_IOAVServiceRef (cast_void_ptr r) = r
   \<and> mkf_IOAVServiceWriteI2C fw (fst (mkf_IOAVServiceCreate fw allocator w))
         chipAddress dataAddress data dataLength w1
     = IOAVServiceWriteI2C fw (fst (IOAVServiceCreate fw allocator w))
         chipAddress dataAddress data dataLength w1
   \<and> mkf_IOAVServiceReadI2C fw (fst (mkf_IOAVServiceCreate fw allocator w))
         chipAddress dataAddress data dataLength w1
     = IOAVServiceReadI2C fw (fst (IOAVServiceCreate fw allocator w))
         chipAddress dataAddress data dataLength w1
   \<and> mkf_IOAVServiceWriteI2C fw (fst (mkf_IOAVServiceCreateWithService fw allocator port w))
         chipAddress dataAddress data dataLength w1
     = IOAVServiceWriteI2C fw (fst (IOAVServiceCreateWithService fw allocator port w))
         chipAddress dataAddress data dataLength w1
   \<and> mkf_IOAVServiceReadI2C fw (fst (mkf_IOAVServiceCreateWithService fw allocator port w))
         chipAddress dataAddress data dataLength w1
     = IOAVServiceReadI2C fw (fst (IOAVServiceCreateWithService fw allocator port w))
         chipAddress dataAddress data dataLength w1
   \<and> fst (snd (mkf_IOAVServiceWriteI2C (recording fw)
                 (fst (mkf_IOAVServiceCreate (recording fw) allocator (log, w)))
                 chipAddress dataAddress data dataLength
                 (snd (mkf_IOAVServiceCreate (recording fw) allocator (log, w)))))
     = log @ [Call_IOAVServiceCreate allocator,
              Call_IOAVServiceWriteI2C (fst (IOAVServiceCreate fw allocator w))
                chipAddress dataAddress data dataLength]
   \<and> fst (snd (mkf_IOAVServiceReadI2C (recording fw)
                 (fst (mkf_IOAVServiceCreateWithService (recording fw) allocator port (log, w)))
                 chipAddress dataAddress data dataLength
                 (snd (mkf_IOAVServiceCreateWithService (recording fw) allocator port (log, w)))))
     = log @ [Call_IOAVServiceCreateWithService allocator port,
              Call_IOAVServiceReadI2C (fst (IOAVServiceCreateWithService fw allocator port w))
                chipAddress dataAddress data dataLength]"
  by (simp add: mkf_IOAVServiceCreate_def mkf_IOAVServiceCreateWithService_def
                mkf_IOAVServiceWriteI2C_def mkf_IOAVServiceReadI2C_def
                ref_of_void_ptr_of_ref recording_def logged_def split_beta)

section \<open>One framework call per shim call\<close>

text \<open>
  C10. For every input, each of the four functions makes one call of its own framework
  function and returns. Over every framework and state, what the function returns is
  what that call returns (for a constructor, the reference as a \<^verbatim>\<open>void *\<close>), so no
  input is answered without the call. Under the recorder the log grows by that single
  call, the result is the framework's and the state is the one the call left. There is
  no check in between, so a null service handle and a null data pointer, which the
  header marks \<^verbatim>\<open>_Nonnull\<close>, go to the framework like any other pointer.
\<close>

theorem shim_calls_framework_exactly_once:
  "mkf_IOAVServiceCreate fw allocator w
     = (cast_void_ptr (fst (IOAVServiceCreate fw allocator w)), snd (IOAVServiceCreate fw allocator w))
   \<and> mkf_IOAVServiceCreateWithService fw allocator port w
     = (cast_void_ptr (fst (IOAVServiceCreateWithService fw allocator port w)),
        snd (IOAVServiceCreateWithService fw allocator port w))
   \<and> mkf_IOAVServiceWriteI2C fw service chipAddress dataAddress data dataLength w
     = IOAVServiceWriteI2C fw (cast_IOAVServiceRef service) chipAddress dataAddress data dataLength w
   \<and> mkf_IOAVServiceReadI2C fw service chipAddress dataAddress data dataLength w
     = IOAVServiceReadI2C fw (cast_IOAVServiceRef service) chipAddress dataAddress data dataLength w
   \<and> mkf_IOAVServiceWriteI2C fw NULL chipAddress dataAddress NULL dataLength w
     = IOAVServiceWriteI2C fw (ConstVoidPtr 0) chipAddress dataAddress (VoidPtr 0) dataLength w
   \<and> mkf_IOAVServiceReadI2C fw NULL chipAddress dataAddress NULL dataLength w
     = IOAVServiceReadI2C fw (ConstVoidPtr 0) chipAddress dataAddress (VoidPtr 0) dataLength w
   \<and> mkf_IOAVServiceCreate (recording fw) allocator (log, w)
     = (cast_void_ptr (fst (IOAVServiceCreate fw allocator w)),
        log @ [Call_IOAVServiceCreate allocator],
        snd (IOAVServiceCreate fw allocator w))
   \<and> mkf_IOAVServiceCreateWithService (recording fw) allocator port (log, w)
     = (cast_void_ptr (fst (IOAVServiceCreateWithService fw allocator port w)),
        log @ [Call_IOAVServiceCreateWithService allocator port],
        snd (IOAVServiceCreateWithService fw allocator port w))
   \<and> mkf_IOAVServiceWriteI2C (recording fw) service chipAddress dataAddress data dataLength (log, w)
     = (fst (IOAVServiceWriteI2C fw (cast_IOAVServiceRef service) chipAddress dataAddress data dataLength w),
        log @ [Call_IOAVServiceWriteI2C (cast_IOAVServiceRef service) chipAddress dataAddress data dataLength],
        snd (IOAVServiceWriteI2C fw (cast_IOAVServiceRef service) chipAddress dataAddress data dataLength w))
   \<and> mkf_IOAVServiceReadI2C (recording fw) service chipAddress dataAddress data dataLength (log, w)
     = (fst (IOAVServiceReadI2C fw (cast_IOAVServiceRef service) chipAddress dataAddress data dataLength w),
        log @ [Call_IOAVServiceReadI2C (cast_IOAVServiceRef service) chipAddress dataAddress data dataLength],
        snd (IOAVServiceReadI2C fw (cast_IOAVServiceRef service) chipAddress dataAddress data dataLength w))
   \<and> mkf_IOAVServiceWriteI2C (recording fw) NULL chipAddress dataAddress NULL dataLength (log, w)
     = (fst (IOAVServiceWriteI2C fw (ConstVoidPtr 0) chipAddress dataAddress (VoidPtr 0) dataLength w),
        log @ [Call_IOAVServiceWriteI2C (ConstVoidPtr 0) chipAddress dataAddress (VoidPtr 0) dataLength],
        snd (IOAVServiceWriteI2C fw (ConstVoidPtr 0) chipAddress dataAddress (VoidPtr 0) dataLength w))
   \<and> mkf_IOAVServiceReadI2C (recording fw) NULL chipAddress dataAddress NULL dataLength (log, w)
     = (fst (IOAVServiceReadI2C fw (ConstVoidPtr 0) chipAddress dataAddress (VoidPtr 0) dataLength w),
        log @ [Call_IOAVServiceReadI2C (ConstVoidPtr 0) chipAddress dataAddress (VoidPtr 0) dataLength],
        snd (IOAVServiceReadI2C fw (ConstVoidPtr 0) chipAddress dataAddress (VoidPtr 0) dataLength w))"
  by (simp add: mkf_IOAVServiceCreate_def mkf_IOAVServiceCreateWithService_def
                mkf_IOAVServiceWriteI2C_def mkf_IOAVServiceReadI2C_def
                cast_IOAVServiceRef_def NULL_def recording_def logged_def split_beta)

end
